theory Spec2Isabelle
  imports Complex_Main "HOL-Library.Char_ord" "HOL-Library.List_Lexorder"
    "HOL-Library.Product_Lexorder"
begin

section \<open>JavaScript values, errors and string helpers\<close>

text \<open>
  The errors of \<^verbatim>\<open>expressError\<close> that the models throw, each with its message.
  \<open>DbError\<close> stands for any error raised by the database client itself (a statement
  the store rejects) and \<open>BcryptError\<close> for the one \<^verbatim>\<open>bcrypt\<close> raises on data that is
  not a string; the models never catch them, so they propagate unchanged.
\<close>

datatype error =
    BadRequestError string
  | NotFoundError string
  | UnauthorizedError string
  | DbError
  | BcryptError

text \<open>
  The JavaScript values that occur as data of an update: \<^verbatim>\<open>null\<close>, booleans, numbers
  (integers only) and strings. A missing property (\<^verbatim>\<open>undefined\<close>) is \<open>None\<close> of a lookup.
\<close>

datatype jsval = JNull | JBool bool | JNum int | JStr string


text \<open>Decimal rendering of a number inside a template literal.\<close>

definition digit_char :: "nat \<Rightarrow> char" where
  "digit_char d = ''0123456789'' ! d"

function string_of_nat :: "nat \<Rightarrow> string" where
  "string_of_nat n =
     (if n < 10 then [digit_char n]
      else string_of_nat (n div 10) @ [digit_char (n mod 10)])"
  by pat_completeness auto
termination
  by (relation "measure id") auto

declare string_of_nat.simps [simp del]

definition string_of_int :: "int \<Rightarrow> string" where
  "string_of_int i =
     (if i < 0 then CHR ''-'' # string_of_nat (nat (- i)) else string_of_nat (nat i))"

text \<open>\<^verbatim>\<open>Array.prototype.join\<close> on an array of strings.\<close>

fun join :: "string \<Rightarrow> string list \<Rightarrow> string" where
  "join sep [] = []"
| "join sep [x] = x"
| "join sep (x # y # ys) = x @ sep @ join sep (y # ys)"

section \<open>The partial-update fragment builder (helpers/sql)\<close>

text \<open>
  \<^verbatim>\<open>dataToUpdate\<close> is the list of its own properties in the order of \<^verbatim>\<open>Object.keys\<close>;
  \<^verbatim>\<open>jsToSql\<close> is the map of its own properties, the storage names.
\<close>

record 'v sql_fragment =
  setCols :: string
  values' :: "'v list"

text \<open>
  The members that a plain object inherits from \<^verbatim>\<open>Object.prototype\<close>, by name, each with
  the text that a template literal gives for it: a native function prints as
  \<^verbatim>\<open>function f() { [native code] }\<close>, and \<^verbatim>\<open>__proto__\<close> is the prototype object itself.
\<close>

definition native_function :: "string \<Rightarrow> string" where
  "native_function f = ''function '' @ f @ ''() { [native code] }''"

definition Object_prototype :: "string \<rightharpoonup> string" where
  "Object_prototype =
     map_of
       [(''constructor'', native_function ''Object''),
        (''__defineGetter__'', native_function ''__defineGetter__''),
        (''__defineSetter__'', native_function ''__defineSetter__''),
        (''hasOwnProperty'', native_function ''hasOwnProperty''),
        (''__lookupGetter__'', native_function ''__lookupGetter__''),
        (''__lookupSetter__'', native_function ''__lookupSetter__''),
        (''isPrototypeOf'', native_function ''isPrototypeOf''),
        (''propertyIsEnumerable'', native_function ''propertyIsEnumerable''),
        (''toString'', native_function ''toString''),
        (''valueOf'', native_function ''valueOf''),
        (''__proto__'', ''[object Object]''),
        (''toLocaleString'', native_function ''toLocaleString'')]"

text \<open>
  \<^verbatim>\<open>jsToSql[colName]\<close>: the own property of that name, else the inherited member, else
  \<^verbatim>\<open>undefined\<close> (\<open>None\<close>).
\<close>

definition get_property :: "(string \<rightharpoonup> string) \<Rightarrow> string \<Rightarrow> string option" where
  "get_property obj key =
     (case obj key of
        Some s \<Rightarrow> Some s
      | None \<Rightarrow> Object_prototype key)"

text \<open>\<^verbatim>\<open>jsToSql[colName] || colName\<close>: the empty string is falsy, as \<^verbatim>\<open>undefined\<close> is.\<close>

definition sqlColumn :: "(string \<rightharpoonup> string) \<Rightarrow> string \<Rightarrow> string" where
  "sqlColumn jsToSql colName =
     (case get_property jsToSql colName of
        None \<Rightarrow> colName
      | Some s \<Rightarrow> if s \<noteq> [] then s else colName)"

text \<open>One element of \<^verbatim>\<open>cols\<close>: the text \<^verbatim>\<open>"<column>"=$<idx + 1>\<close>.\<close>

definition assignment :: "(string \<rightharpoonup> string) \<Rightarrow> nat \<times> string \<Rightarrow> string" where
  "assignment jsToSql p =
     (case p of (idx, colName) \<Rightarrow>
        [CHR 0x22] @ sqlColumn jsToSql colName @ [CHR 0x22] @ ''=$'' @ string_of_nat (idx + 1))"

definition sqlForPartialUpdate ::
  "(string \<times> 'v) list \<Rightarrow> (string \<rightharpoonup> string) \<Rightarrow> error + 'v sql_fragment" where
  "sqlForPartialUpdate dataToUpdate jsToSql =
     (let keys = map fst dataToUpdate in
      if length keys = 0 then Inl (BadRequestError ''No data'')
      else
        let cols = map (assignment jsToSql) (enumerate 0 keys) in
        Inr \<lparr> setCols = join '', '' cols, values' = map snd dataToUpdate \<rparr>)"

section \<open>The relational store behind \<^verbatim>\<open>db.query\<close>\<close>

text \<open>
  Modelled from the spec: the relational schema (tables \<^verbatim>\<open>companies\<close>, \<^verbatim>\<open>users\<close>,
  \<^verbatim>\<open>jobs\<close>, \<^verbatim>\<open>applications\<close>) is not part of the sources. Its columns are those of the
  data model and of the statements in the models; \<^verbatim>\<open>handle\<close>, \<^verbatim>\<open>username\<close> and the job
  \<^verbatim>\<open>id\<close> are the unique keys, salary and equity are nullable (the model also lets the
  employee count and the logo URL be NULL), and the applications relation carries no
  uniqueness constraint. Referential actions on delete or update are left unspecified by
  the data model and are not modelled. Integers are unbounded.
\<close>

record company =
  handle :: string
  name :: string
  description :: string
  numEmployees :: "int option"
  logoUrl :: "string option"

record user_view =
  username :: string
  firstName :: string
  lastName :: string
  email :: string
  isAdmin :: bool

record user_row = user_view +
  password :: string


record job_core =
  id' :: int
  title :: string
  salary :: "int option"
  equity :: "rat option"

record job_row = job_core +
  companyHandle :: string


record job_detail = job_core +
  company :: "company option"

text \<open>An application row, in the column order of the insert: \<^verbatim>\<open>(job_id, username)\<close>.\<close>

type_synonym application = "int \<times> string"

record db =
  db_companies :: "company list"
  db_users :: "user_row list"
  db_jobs :: "job_row list"
  db_applications :: "application list"

subsection \<open>Parameters: from JavaScript values to typed cells\<close>

datatype sqlval = SNull | SText string | SInt int | SBool bool | SNumeric rat

datatype coltype = TText | TInt | TBool | TNumeric

definition is_digit :: "char \<Rightarrow> bool" where
  "is_digit c = (c \<in> set ''0123456789'')"

definition digit_val :: "char \<Rightarrow> nat" where
  "digit_val c = of_char c - 48"

definition nat_of_digits :: "string \<Rightarrow> nat" where
  "nat_of_digits ds = foldl (\<lambda>n c. 10 * n + digit_val c) 0 ds"

definition parse_nat :: "string \<Rightarrow> nat option" where
  "parse_nat s = (if s \<noteq> [] \<and> list_all is_digit s then Some (nat_of_digits s) else None)"

definition parse_int :: "string \<Rightarrow> int option" where
  "parse_int s =
     (case s of
        [] \<Rightarrow> None
      | c # cs \<Rightarrow>
          if c = CHR ''-'' then map_option (\<lambda>n. - int n) (parse_nat cs)
          else map_option int (parse_nat s))"

text \<open>A decimal numeral: an optional sign, digits, and optionally a point and digits.\<close>

definition parse_unsigned_decimal :: "string \<Rightarrow> rat option" where
  "parse_unsigned_decimal s =
     (let ip = takeWhile (\<lambda>c. c \<noteq> CHR ''.'') s; rest = dropWhile (\<lambda>c. c \<noteq> CHR ''.'') s in
      case parse_nat ip of
        None \<Rightarrow> None
      | Some i \<Rightarrow>
          (case rest of
             [] \<Rightarrow> Some (of_nat i)
           | _ # fp \<Rightarrow>
               (case parse_nat fp of
                  None \<Rightarrow> None
                | Some f \<Rightarrow> Some (of_nat i + of_nat f / of_nat (10 ^ length fp)))))"

definition parse_decimal :: "string \<Rightarrow> rat option" where
  "parse_decimal s =
     (case s of
        [] \<Rightarrow> None
      | c # cs \<Rightarrow>
          if c = CHR ''-'' then map_option uminus (parse_unsigned_decimal cs)
          else parse_unsigned_decimal s)"

text \<open>
  The client sends every parameter as text (\<^verbatim>\<open>null\<close> as NULL) and the store reads the
  text at the type of the column it meets: \<open>bind t v\<close> is the cell that the value \<open>v\<close>
  gives at type \<open>t\<close>, \<open>None\<close> when the store rejects it. Of the textual forms of numbers
  and booleans that the store accepts, the model keeps the plain ones.
\<close>

fun bind :: "coltype \<Rightarrow> jsval \<Rightarrow> sqlval option" where
  "bind t JNull = Some SNull"
| "bind TText (JStr s) = Some (SText s)"
| "bind TText (JNum n) = Some (SText (string_of_int n))"
| "bind TText (JBool b) = Some (SText (if b then ''true'' else ''false''))"
| "bind TInt (JNum n) = Some (SInt n)"
| "bind TInt (JStr s) = map_option SInt (parse_int s)"
| "bind TInt (JBool b) = None"
| "bind TBool (JBool b) = Some (SBool b)"
| "bind TBool (JStr s) =
     (if s = ''true'' \<or> s = ''t'' then Some (SBool True)
      else if s = ''false'' \<or> s = ''f'' then Some (SBool False)
      else None)"
| "bind TBool (JNum n) =
     (if n = 1 then Some (SBool True) else if n = 0 then Some (SBool False) else None)"
| "bind TNumeric (JNum n) = Some (SNumeric (of_int n))"
| "bind TNumeric (JStr s) = map_option SNumeric (parse_decimal s)"
| "bind TNumeric (JBool b) = None"

text \<open>The parameter \<^verbatim>\<open>$n\<close> of a statement, \<open>None\<close> when none was supplied.\<close>

definition param :: "jsval list \<Rightarrow> nat \<Rightarrow> jsval option" where
  "param params n = (if 0 < n \<and> n \<le> length params then Some (params ! (n - 1)) else None)"

definition bind_param :: "coltype \<Rightarrow> jsval list \<Rightarrow> nat \<Rightarrow> sqlval option" where
  "bind_param t params n = (case param params n of None \<Rightarrow> None | Some v \<Rightarrow> bind t v)"

subsection \<open>Reading the statement text\<close>

fun strip_prefix :: "string \<Rightarrow> string \<Rightarrow> string option" where
  "strip_prefix [] s = Some s"
| "strip_prefix (p # ps) [] = None"
| "strip_prefix (p # ps) (c # cs) = (if p = c then strip_prefix ps cs else None)"

text \<open>A placeholder \<^verbatim>\<open>$n\<close>: its number and the text after it.\<close>

definition parse_placeholder :: "string \<Rightarrow> (nat \<times> string) option" where
  "parse_placeholder s =
     (case strip_prefix ''$'' s of
        None \<Rightarrow> None
      | Some r \<Rightarrow>
          (case parse_nat (takeWhile is_digit r) of
             None \<Rightarrow> None
           | Some n \<Rightarrow> Some (n, dropWhile is_digit r)))"




text \<open>
  A WHERE clause as the models assemble it: empty, or \<^verbatim>\<open>WHERE\<close> and predicates, each
  followed by a blank, with \<^verbatim>\<open>AND\<close> and a blank before every predicate but the first.
  The predicates are read by \<open>pred\<close>.
\<close>

function parse_predicates :: "(string \<Rightarrow> ('f \<times> string) option) \<Rightarrow> string \<Rightarrow> 'f list option" where
  "parse_predicates pred s =
     (case pred s of
        None \<Rightarrow> None
      | Some (f, r) \<Rightarrow>
          (case strip_prefix '' '' r of
             None \<Rightarrow> None
           | Some r1 \<Rightarrow>
               if r1 = [] then Some [f]
               else
                 (case strip_prefix ''AND '' r1 of
                    None \<Rightarrow> None
                  | Some r2 \<Rightarrow>
                      if length r2 < length s then
                        (case parse_predicates pred r2 of None \<Rightarrow> None | Some fs \<Rightarrow> Some (f # fs))
                      else None)))"
  by pat_completeness auto
termination
  by (relation "measure (\<lambda>(pred, s). length s)") auto

declare parse_predicates.simps [simp del]

definition parse_where :: "(string \<Rightarrow> ('f \<times> string) option) \<Rightarrow> string \<Rightarrow> 'f list option" where
  "parse_where pred s =
     (if s = [] then Some []
      else case strip_prefix ''WHERE '' s of None \<Rightarrow> None | Some r \<Rightarrow> parse_predicates pred r)"

subsection \<open>UPDATE statements\<close>





subsection \<open>The statements on \<^verbatim>\<open>companies\<close>\<close>







text \<open>
  The predicates of the company search, as the store reads them from the WHERE clause:
  \<^verbatim>\<open>name ILIKE '%' ||$n || '%'\<close>, \<^verbatim>\<open>num_employees > $n\<close> and \<^verbatim>\<open>num_employees < $n\<close>.
\<close>

datatype company_filter = NameILike nat | EmployeesGt nat | EmployeesLt nat

definition parse_company_filter :: "string \<Rightarrow> (company_filter \<times> string) option" where
  "parse_company_filter s =
     (case strip_prefix ''name ILIKE '%' ||'' s of
        Some r \<Rightarrow>
          (case parse_placeholder r of
             None \<Rightarrow> None
           | Some (n, r') \<Rightarrow>
               (case strip_prefix ('' || '%'' @ [CHR 0x27]) r' of
                  None \<Rightarrow> None
                | Some r'' \<Rightarrow> Some (NameILike n, r'')))
      | None \<Rightarrow>
          (case strip_prefix ''num_employees > '' s of
             Some r \<Rightarrow> map_option (\<lambda>(n, r'). (EmployeesGt n, r')) (parse_placeholder r)
           | None \<Rightarrow>
               (case strip_prefix ''num_employees < '' s of
                  Some r \<Rightarrow> map_option (\<lambda>(n, r'). (EmployeesLt n, r')) (parse_placeholder r)
                | None \<Rightarrow> None)))"

text \<open>Whether the parameter of a predicate is there and of the right type.\<close>

fun company_filter_ok :: "jsval list \<Rightarrow> company_filter \<Rightarrow> bool" where
  "company_filter_ok params (NameILike n) = (bind_param TText params n \<noteq> None)"
| "company_filter_ok params (EmployeesGt n) = (bind_param TInt params n \<noteq> None)"
| "company_filter_ok params (EmployeesLt n) = (bind_param TInt params n \<noteq> None)"

text \<open>
  Whether a predicate is true of a row (a comparison with NULL is not). The pattern match
  of the store, \<open>ilike pattern text\<close>, is a parameter of the model.
\<close>

fun company_filter_holds ::
  "(string \<Rightarrow> string \<Rightarrow> bool) \<Rightarrow> jsval list \<Rightarrow> company_filter \<Rightarrow> company \<Rightarrow> bool" where
  "company_filter_holds ilike params (NameILike n) c =
     (case bind_param TText params n of
        Some (SText p) \<Rightarrow> ilike (''%'' @ p @ ''%'') (name c)
      | _ \<Rightarrow> False)"
| "company_filter_holds ilike params (EmployeesGt n) c =
     (case (numEmployees c, bind_param TInt params n) of
        (Some e, Some (SInt m)) \<Rightarrow> e > m
      | _ \<Rightarrow> False)"
| "company_filter_holds ilike params (EmployeesLt n) c =
     (case (numEmployees c, bind_param TInt params n) of
        (Some e, Some (SInt m)) \<Rightarrow> e < m
      | _ \<Rightarrow> False)"

text \<open>
  \<^verbatim>\<open>SELECT ... FROM companies <concatenatedFilters> ORDER BY name\<close>. Text is ordered by
  the linear order on strings.
\<close>

definition db_select_companies ::
  "(string \<Rightarrow> string \<Rightarrow> bool) \<Rightarrow> string \<Rightarrow> jsval list \<Rightarrow> db \<Rightarrow> error + company list" where
  "db_select_companies ilike whereClause params d =
     (case parse_where parse_company_filter whereClause of
        None \<Rightarrow> Inl DbError
      | Some fs \<Rightarrow>
          if \<not> list_all (company_filter_ok params) fs then Inl DbError
          else Inr (sort_key name
                      (filter (\<lambda>c. list_all (\<lambda>f. company_filter_holds ilike params f c) fs)
                         (db_companies d))))"

section \<open>The Company model (models/company)\<close>


text \<open>
  The loop over \<^verbatim>\<open>filters\<close> that assembles \<^verbatim>\<open>concatenatedFilters\<close>; it is the same in
  the company and the job search.
\<close>

definition concatenatedFilters :: "string list \<Rightarrow> string" where
  "concatenatedFilters filters =
     (if length filters > 0 then
        foldl (\<lambda>acc (index, filter'). (if index \<noteq> 0 then acc @ ''AND '' else acc) @ filter' @ '' '')
          ''WHERE '' (enumerate 0 filters)
      else [])"

text \<open>
  The values and filters of the company search, after the three \<^verbatim>\<open>if\<close> statements.
  A parameter that was not passed is \<open>None\<close>; the empty string and the number 0 are falsy.
\<close>

definition Company_findAll_filters ::
  "string option \<Rightarrow> int option \<Rightarrow> int option \<Rightarrow> jsval list \<times> string list" where
  "Company_findAll_filters name' minEmployees maxEmployees =
     (let values0 = []; filters0 = [];
          (values1, filters1) =
            (case name' of
               Some n \<Rightarrow>
                 if n \<noteq> [] then
                   (let vs = values0 @ [JStr n] in
                    (vs, filters0 @ [''name ILIKE '%' ||$'' @ string_of_nat (length vs) @ '' || '%'' @ [CHR 0x27]]))
                 else (values0, filters0)
             | None \<Rightarrow> (values0, filters0));
          (values2, filters2) =
            (case minEmployees of
               Some m \<Rightarrow>
                 if m \<noteq> 0 then
                   (let vs = values1 @ [JNum m] in
                    (vs, filters1 @ [''num_employees > $'' @ string_of_nat (length vs)]))
                 else (values1, filters1)
             | None \<Rightarrow> (values1, filters1));
          (values3, filters3) =
            (case maxEmployees of
               Some m \<Rightarrow>
                 if m \<noteq> 0 then
                   (let vs = values2 @ [JNum m] in
                    (vs, filters2 @ [''num_employees < $'' @ string_of_nat (length vs)]))
                 else (values2, filters2)
             | None \<Rightarrow> (values2, filters2))
      in (values3, filters3))"

definition Company_findAll ::
  "(string \<Rightarrow> string \<Rightarrow> bool) \<Rightarrow> string option \<Rightarrow> int option \<Rightarrow> int option \<Rightarrow> db \<Rightarrow>
   (error + company list) \<times> db" where
  "Company_findAll ilike name' minEmployees maxEmployees d =
     (case Company_findAll_filters name' minEmployees maxEmployees of
        (vs, filters) \<Rightarrow> (db_select_companies ilike (concatenatedFilters filters) vs d, d))"





section \<open>The User model (models/user)\<close>

subsection \<open>The statements on \<^verbatim>\<open>users\<close> and \<^verbatim>\<open>applications\<close>\<close>



text \<open>The columns of a user row other than the password.\<close>

definition user_of_row :: "user_row \<Rightarrow> user_view" where
  "user_of_row u =
     \<lparr> username = username u, firstName = firstName u, lastName = lastName u,
       email = email u, isAdmin = isAdmin u \<rparr>"

text \<open>\<^verbatim>\<open>SELECT ... FROM users WHERE username = $1\<close>\<close>

definition db_select_user :: "string \<Rightarrow> db \<Rightarrow> user_row list" where
  "db_select_user un d = filter (\<lambda>u. username u = un) (db_users d)"





text \<open>\<^verbatim>\<open>SELECT id FROM jobs WHERE id = $1\<close>, and the other columns for \<^verbatim>\<open>Job.get\<close>.\<close>

definition db_select_job :: "int \<Rightarrow> db \<Rightarrow> job_row list" where
  "db_select_job i d = filter (\<lambda>j. id' j = i) (db_jobs d)"

text \<open>\<^verbatim>\<open>INSERT INTO applications (job_id, username) VALUES ($1, $2)\<close>\<close>

definition db_insert_application :: "int \<Rightarrow> string \<Rightarrow> db \<Rightarrow> db" where
  "db_insert_application jobId un d = d\<lparr>db_applications := db_applications d @ [(jobId, un)]\<rparr>"

subsection \<open>The methods\<close>

text \<open>
  \<^verbatim>\<open>bcrypt.compare\<close> and \<^verbatim>\<open>bcrypt.hash\<close> (at the configured work factor) are parameters:
  \<open>compare password hash\<close> is the verdict of the comparison, \<open>hash password\<close> the hash
  that the call returns.
\<close>

definition User_authenticate ::
  "(string \<Rightarrow> string \<Rightarrow> bool) \<Rightarrow> string \<Rightarrow> string \<Rightarrow> db \<Rightarrow> (error + user_view) \<times> db" where
  "User_authenticate compare un pw d =
     (case db_select_user un d of
        user # _ \<Rightarrow>
          (let isValid = compare pw (password user) in
           if isValid = True then (Inr (user_of_row user), d)
           else (Inl (UnauthorizedError ''Invalid username/password''), d))
      | [] \<Rightarrow> (Inl (UnauthorizedError ''Invalid username/password''), d))"







definition User_applyToJob :: "string \<Rightarrow> int \<Rightarrow> db \<Rightarrow> (error + unit) \<times> db" where
  "User_applyToJob un jobId d =
     (case db_select_job jobId d of
        [] \<Rightarrow> (Inl (NotFoundError (''Job with id: '' @ string_of_int jobId @ '' not found'')), d)
      | job # _ \<Rightarrow>
          (case db_select_user un d of
             [] \<Rightarrow> (Inl (NotFoundError (''No username with id: '' @ un)), d)
           | user # _ \<Rightarrow> (Inr (), db_insert_application jobId un d)))"

section \<open>The Job model (models/job)\<close>

subsection \<open>The statements on \<^verbatim>\<open>jobs\<close>\<close>













subsection \<open>The methods\<close>






section \<open>What the searches select\<close>

text \<open>
  The rows that the company search is to return, stated on the parameters rather than on
  the statement text: a company is selected when it satisfies every filter that applies.
  A name applies unless it is missing or empty, a bound unless it is missing or 0; a
  company with no employee count satisfies no bound.
\<close>

definition company_selected ::
  "(string \<Rightarrow> string \<Rightarrow> bool) \<Rightarrow> string option \<Rightarrow> int option \<Rightarrow> int option \<Rightarrow> company \<Rightarrow> bool" where
  "company_selected ilike name' minEmployees maxEmployees c =
     ((case name' of
         Some n \<Rightarrow> n \<noteq> [] \<longrightarrow> ilike (''%'' @ n @ ''%'') (name c)
       | None \<Rightarrow> True) \<and>
      (case minEmployees of
         Some m \<Rightarrow> m \<noteq> 0 \<longrightarrow> (case numEmployees c of Some e \<Rightarrow> m < e | None \<Rightarrow> False)
       | None \<Rightarrow> True) \<and>
      (case maxEmployees of
         Some m \<Rightarrow> m \<noteq> 0 \<longrightarrow> (case numEmployees c of Some e \<Rightarrow> e < m | None \<Rightarrow> False)
       | None \<Rightarrow> True))"

section \<open>Update data that the store accepts\<close>





section \<open>A sample store\<close>

text \<open>One company, one user and one job of that company, for concrete evaluations.\<close>

definition sample_company :: company where
  "sample_company =
     \<lparr> handle = ''acme'', name = ''Acme'', description = ''Tools'',
       numEmployees = Some 5, logoUrl = None \<rparr>"

definition sample_user :: user_row where
  "sample_user =
     \<lparr> username = ''ann'', firstName = ''Ann'', lastName = ''Lee'', email = ''ann@acme.org'',
       isAdmin = False, password = ''hash-of-secret'' \<rparr>"

definition sample_job :: job_row where
  "sample_job =
     \<lparr> id' = 1, title = ''Engineer'', salary = Some 100, equity = None,
       companyHandle = ''acme'' \<rparr>"

definition sample_db :: db where
  "sample_db =
     \<lparr> db_companies = [sample_company], db_users = [sample_user], db_jobs = [sample_job],
       db_applications = [] \<rparr>"

definition new_company :: company where
  "new_company =
     \<lparr> handle = ''bolt'', name = ''Bolt'', description = ''Nuts'',
       numEmployees = None, logoUrl = None \<rparr>"



section \<open>Properties of the fragment builder\<close>

lemma cols_by_index:
  "map (assignment jsToSql) (enumerate 0 (map fst dataToUpdate)) =
   map (\<lambda>i. [CHR 0x22] @ sqlColumn jsToSql (fst (dataToUpdate ! i)) @ [CHR 0x22] @ ''=$''
              @ string_of_nat (i + 1)) [0..<length dataToUpdate]"
  by (rule nth_equalityI) (simp_all add: nth_enumerate_eq assignment_def)

text \<open>
  C9. For the empty data mapping and any name-mapping, the fragment builder fails with
  the BadRequest error "No data".
\<close>

theorem sqlForPartialUpdate_empty:
  "sqlForPartialUpdate [] jsToSql = Inl (BadRequestError ''No data'')"
  by (simp add: sqlForPartialUpdate_def)

text \<open>
  C1. For a non-empty data mapping with \<open>N\<close> keys and any name-mapping, the builder
  returns the set clause made of one quoted assignment per key, the \<open>i\<close>-th (from 0)
  for the \<open>i\<close>-th key with placeholder \<open>$(i + 1)\<close>, joined by a comma and a blank, and
  the values of the data mapping in the same order.
\<close>

theorem sqlForPartialUpdate_nonempty:
  assumes "dataToUpdate \<noteq> []"
  shows "sqlForPartialUpdate dataToUpdate jsToSql =
           Inr \<lparr> setCols =
                   join '', ''
                     (map (\<lambda>i. [CHR 0x22] @ sqlColumn jsToSql (fst (dataToUpdate ! i)) @ [CHR 0x22]
                                 @ ''=$'' @ string_of_nat (i + 1))
                        [0..<length dataToUpdate]),
                 values' = map snd dataToUpdate \<rparr>"
  using assms by (simp add: sqlForPartialUpdate_def cols_by_index)

theorem sqlForPartialUpdate_nonempty_witness:
  \<open>[(''firstName'', JStr ''Aliya''), (''age'', JNum 32)] \<noteq> [] \<and>
   sqlForPartialUpdate [(''firstName'', JStr ''Aliya''), (''age'', JNum 32)] Map.empty =
     Inr \<lparr> setCols = ''"firstName"=$1, "age"=$2'', values' = [JStr ''Aliya'', JNum 32] \<rparr>\<close>
  using sqlForPartialUpdate_nonempty
          [of "[(''firstName'', JStr ''Aliya''), (''age'', JNum 32)]" Map.empty]
  by (simp add: sqlColumn_def get_property_def Object_prototype_def string_of_nat.simps
        digit_char_def upt_rec)

text \<open>
  C3, as the claim states it, fails in two places. A field that the name-mapping maps to
  the empty string gets its own name, since the mapped name is falsy. A field that is
  absent from the name-mapping but bears the name of a member that every object inherits,
  such as \<^verbatim>\<open>constructor\<close>, does not get its own name: the lookup finds the inherited
  member, and the assignment is written with the text of that member.
\<close>

theorem sqlForPartialUpdate_column_counterexample:
  \<open>[''a'' \<mapsto> ''''] ''a'' = Some '''' \<and>
   sqlForPartialUpdate [(''a'', JNum 1)] [''a'' \<mapsto> ''''] =
     Inr \<lparr> setCols = ''"a"=$1'', values' = [JNum 1] \<rparr> \<and>
   sqlForPartialUpdate [(''a'', JNum 1)] [''a'' \<mapsto> ''''] \<noteq>
     Inr \<lparr> setCols = ''""=$1'', values' = [JNum 1] \<rparr> \<and>
   (Map.empty :: string \<rightharpoonup> string) ''constructor'' = None \<and>
   sqlForPartialUpdate [(''constructor'', JNum 1)] Map.empty =
     Inr \<lparr> setCols = ''"function Object() { [native code] }"=$1'', values' = [JNum 1] \<rparr> \<and>
   sqlForPartialUpdate [(''constructor'', JNum 1)] Map.empty \<noteq>
     Inr \<lparr> setCols = ''"constructor"=$1'', values' = [JNum 1] \<rparr>\<close>
  by (simp add: sqlForPartialUpdate_def enumerate_eq_zip assignment_def sqlColumn_def
        get_property_def Object_prototype_def native_function_def string_of_nat.simps
        digit_char_def)

text \<open>
  C3, amended. For every field of a non-empty data mapping: if the name-mapping has the
  field as an own property with a non-empty storage name, the assignment of that field
  uses the storage name; if the name-mapping has no property of that name, neither its own
  nor one inherited from \<^verbatim>\<open>Object.prototype\<close>, or has it with the empty string, the
  assignment uses the field's own name. In particular \<^verbatim>\<open>{firstName: "Aliya", age: 32}\<close>
  with the mapping \<^verbatim>\<open>{firstName: "first_name"}\<close> gives the set clause
  \<^verbatim>\<open>"first_name"=$1, "age"=$2\<close> and the values \<^verbatim>\<open>["Aliya", 32]\<close>.
\<close>

theorem sqlForPartialUpdate_column_mapping:
  \<open>(dataToUpdate \<noteq> [] \<longrightarrow>
      (\<exists>cols. sqlForPartialUpdate dataToUpdate jsToSql =
                 Inr \<lparr> setCols = join '', '' cols, values' = map snd dataToUpdate \<rparr> \<and>
              length cols = length dataToUpdate \<and>
              (\<forall>i < length dataToUpdate.
                 (\<forall>s. jsToSql (fst (dataToUpdate ! i)) = Some s \<and> s \<noteq> [] \<longrightarrow>
                    cols ! i = ''"'' @ s @ ''"=$'' @ string_of_nat (i + 1)) \<and>
                 (jsToSql (fst (dataToUpdate ! i)) = None \<and>
                    Object_prototype (fst (dataToUpdate ! i)) = None \<or>
                  jsToSql (fst (dataToUpdate ! i)) = Some [] \<longrightarrow>
                    cols ! i = ''"'' @ fst (dataToUpdate ! i) @ ''"=$'' @ string_of_nat (i + 1))))) \<and>
   sqlForPartialUpdate [(''firstName'', JStr ''Aliya''), (''age'', JNum 32)]
       [''firstName'' \<mapsto> ''first_name''] =
     Inr \<lparr> setCols = ''"first_name"=$1, "age"=$2'', values' = [JStr ''Aliya'', JNum 32] \<rparr>\<close>
proof (rule conjI, rule impI)
  assume ne: "dataToUpdate \<noteq> []"
  let ?cols = "map (assignment jsToSql) (enumerate 0 (map fst dataToUpdate))"
  have "sqlForPartialUpdate dataToUpdate jsToSql =
          Inr \<lparr> setCols = join '', '' ?cols, values' = map snd dataToUpdate \<rparr>"
    using ne by (simp add: sqlForPartialUpdate_def)
  moreover have "length ?cols = length dataToUpdate" by simp
  moreover have \<open>\<forall>i < length dataToUpdate.
       (\<forall>s. jsToSql (fst (dataToUpdate ! i)) = Some s \<and> s \<noteq> [] \<longrightarrow>
          ?cols ! i = ''"'' @ s @ ''"=$'' @ string_of_nat (i + 1)) \<and>
       (jsToSql (fst (dataToUpdate ! i)) = None \<and>
          Object_prototype (fst (dataToUpdate ! i)) = None \<or>
        jsToSql (fst (dataToUpdate ! i)) = Some [] \<longrightarrow>
          ?cols ! i = ''"'' @ fst (dataToUpdate ! i) @ ''"=$'' @ string_of_nat (i + 1))\<close>
    by (auto simp: nth_enumerate_eq assignment_def sqlColumn_def get_property_def)
  ultimately show \<open>\<exists>cols. sqlForPartialUpdate dataToUpdate jsToSql =
                 Inr \<lparr> setCols = join '', '' cols, values' = map snd dataToUpdate \<rparr> \<and>
              length cols = length dataToUpdate \<and>
              (\<forall>i < length dataToUpdate.
                 (\<forall>s. jsToSql (fst (dataToUpdate ! i)) = Some s \<and> s \<noteq> [] \<longrightarrow>
                    cols ! i = ''"'' @ s @ ''"=$'' @ string_of_nat (i + 1)) \<and>
                 (jsToSql (fst (dataToUpdate ! i)) = None \<and>
                    Object_prototype (fst (dataToUpdate ! i)) = None \<or>
                  jsToSql (fst (dataToUpdate ! i)) = Some [] \<longrightarrow>
                    cols ! i = ''"'' @ fst (dataToUpdate ! i) @ ''"=$'' @ string_of_nat (i + 1)))\<close>
    by (intro exI [of _ ?cols]) simp
next
  show \<open>sqlForPartialUpdate [(''firstName'', JStr ''Aliya''), (''age'', JNum 32)]
       [''firstName'' \<mapsto> ''first_name''] =
     Inr \<lparr> setCols = ''"first_name"=$1, "age"=$2'', values' = [JStr ''Aliya'', JNum 32] \<rparr>\<close>
    by (simp add: sqlForPartialUpdate_def enumerate_eq_zip assignment_def sqlColumn_def
        get_property_def Object_prototype_def string_of_nat.simps digit_char_def)
qed

theorem sqlForPartialUpdate_column_mapping_witness:
  \<open>[(''firstName'', JStr ''Aliya''), (''age'', JNum 32)] \<noteq> [] \<and>
   [''firstName'' \<mapsto> ''first_name''] ''firstName'' = Some ''first_name'' \<and>
   [''firstName'' \<mapsto> ''first_name''] ''age'' = None \<and>
   Object_prototype ''age'' = None \<and>
   (\<exists>cols. sqlForPartialUpdate [(''firstName'', JStr ''Aliya''), (''age'', JNum 32)]
               [''firstName'' \<mapsto> ''first_name''] =
              Inr \<lparr> setCols = join '', '' cols, values' = [JStr ''Aliya'', JNum 32] \<rparr> \<and>
            length cols = 2 \<and> cols ! 0 = ''"first_name"=$1'' \<and> cols ! 1 = ''"age"=$2'')\<close>
proof -
  let ?D = "[(''firstName'', JStr ''Aliya''), (''age'', JNum 32)]"
  let ?M = "[''firstName'' \<mapsto> ''first_name'']"
  have ne: "?D \<noteq> []" by simp
  have age: "Object_prototype ''age'' = None" by (simp add: Object_prototype_def)
  from sqlForPartialUpdate_column_mapping [of ?D ?M, THEN conjunct1, THEN mp, OF ne]
  obtain cols where r: "sqlForPartialUpdate ?D ?M =
        Inr \<lparr> setCols = join '', '' cols, values' = map snd ?D \<rparr>"
    and l: "length cols = length ?D"
    and a: \<open>\<forall>i < length ?D.
       (\<forall>s. ?M (fst (?D ! i)) = Some s \<and> s \<noteq> [] \<longrightarrow>
          cols ! i = ''"'' @ s @ ''"=$'' @ string_of_nat (i + 1)) \<and>
       (?M (fst (?D ! i)) = None \<and> Object_prototype (fst (?D ! i)) = None \<or>
        ?M (fst (?D ! i)) = Some [] \<longrightarrow>
          cols ! i = ''"'' @ fst (?D ! i) @ ''"=$'' @ string_of_nat (i + 1))\<close>
    by blast
  have "0 < length ?D" by simp
  from a [rule_format, OF this, THEN conjunct1, rule_format, of "''first_name''"]
  have c0: \<open>cols ! 0 = ''"first_name"=$1''\<close>
    by (simp add: string_of_nat.simps digit_char_def)
  have "1 < length ?D" by simp
  from a [rule_format, OF this, THEN conjunct2] age
  have c1: \<open>cols ! 1 = ''"age"=$2''\<close>
    by (simp add: string_of_nat.simps digit_char_def)
  have "\<exists>c. sqlForPartialUpdate ?D ?M =
              Inr \<lparr> setCols = join '', '' c, values' = [JStr ''Aliya'', JNum 32] \<rparr> \<and>
            length c = 2 \<and> c ! 0 = cols ! 0 \<and> c ! 1 = cols ! 1"
    using r l by (intro exI [of _ cols]) simp
  then show ?thesis unfolding c0 c1 by (simp add: age)
qed

section \<open>Properties of the User model\<close>

lemma db_select_job_empty:
  "db_select_job jobId d = [] \<longleftrightarrow> jobId \<notin> set (map id' (db_jobs d))"
  by (auto simp: db_select_job_def filter_empty_conv)

lemma db_select_user_empty:
  "db_select_user un d = [] \<longleftrightarrow> un \<notin> set (map username (db_users d))"
  by (auto simp: db_select_user_def filter_empty_conv)

lemma User_applyToJob_both_exist:
  assumes "jobId \<in> set (map id' (db_jobs d))" and "un \<in> set (map username (db_users d))"
  shows "User_applyToJob un jobId d =
           (Inr (), d\<lparr>db_applications := db_applications d @ [(jobId, un)]\<rparr>)"
  using assms db_select_job_empty [of jobId d] db_select_user_empty [of un d]
  by (auto simp: User_applyToJob_def db_insert_application_def split: list.splits)

text \<open>
  C5. \<^verbatim>\<open>User.applyToJob\<close> fails with NotFound, the store unchanged, if the job id does
  not exist, and likewise if the job exists and the username does not; when both exist
  it returns and the store differs by exactly one new application row, for that job id
  and username.
\<close>

theorem User_applyToJob_checks_then_inserts:
  "(jobId \<notin> set (map id' (db_jobs d)) \<longrightarrow>
      User_applyToJob un jobId d =
        (Inl (NotFoundError (''Job with id: '' @ string_of_int jobId @ '' not found'')), d)) \<and>
   (jobId \<in> set (map id' (db_jobs d)) \<and> un \<notin> set (map username (db_users d)) \<longrightarrow>
      User_applyToJob un jobId d = (Inl (NotFoundError (''No username with id: '' @ un)), d)) \<and>
   (jobId \<in> set (map id' (db_jobs d)) \<and> un \<in> set (map username (db_users d)) \<longrightarrow>
      User_applyToJob un jobId d =
        (Inr (), d\<lparr>db_applications := db_applications d @ [(jobId, un)]\<rparr>))"
  using db_select_job_empty [of jobId d] db_select_user_empty [of un d]
  by (auto simp: User_applyToJob_def db_insert_application_def split: list.splits)

theorem User_applyToJob_checks_then_inserts_witness:
  "2 \<notin> set (map id' (db_jobs sample_db)) \<and>
   User_applyToJob ''ann'' 2 sample_db =
     (Inl (NotFoundError ''Job with id: 2 not found''), sample_db) \<and>
   1 \<in> set (map id' (db_jobs sample_db)) \<and>
   ''bob'' \<notin> set (map username (db_users sample_db)) \<and>
   User_applyToJob ''bob'' 1 sample_db =
     (Inl (NotFoundError ''No username with id: bob''), sample_db) \<and>
   ''ann'' \<in> set (map username (db_users sample_db)) \<and>
   User_applyToJob ''ann'' 1 sample_db =
     (Inr (), sample_db\<lparr>db_applications := [(1, ''ann'')]\<rparr>)"
  using User_applyToJob_checks_then_inserts [of 2 sample_db "''ann''"]
    User_applyToJob_checks_then_inserts [of 1 sample_db "''bob''"]
    User_applyToJob_checks_then_inserts [of 1 sample_db "''ann''"]
  by (simp add: sample_db_def sample_job_def sample_user_def string_of_int_def
        string_of_nat.simps digit_char_def)

text \<open>
  C10. \<^verbatim>\<open>User.applyToJob\<close> has no duplicate check: when the job and the user exist, a
  call and a second call with the same username and job id both pass the two existence
  checks and insert, so that the store holds two more rows for the pair; and no call
  fails with a BadRequest error.
\<close>

theorem User_applyToJob_repeated:
  "(jobId \<in> set (map id' (db_jobs d)) \<and> un \<in> set (map username (db_users d)) \<longrightarrow>
      (\<exists>d1 d2. User_applyToJob un jobId d = (Inr (), d1) \<and>
               User_applyToJob un jobId d1 = (Inr (), d2) \<and>
               db_applications d2 = db_applications d @ [(jobId, un), (jobId, un)])) \<and>
   fst (User_applyToJob un jobId d) \<noteq> Inl (BadRequestError msg)"
proof -
  have twice: "\<exists>d1 d2. User_applyToJob un jobId d = (Inr (), d1) \<and>
               User_applyToJob un jobId d1 = (Inr (), d2) \<and>
               db_applications d2 = db_applications d @ [(jobId, un), (jobId, un)]"
    if ex: "jobId \<in> set (map id' (db_jobs d))" "un \<in> set (map username (db_users d))"
  proof -
    let ?d1 = "d\<lparr>db_applications := db_applications d @ [(jobId, un)]\<rparr>"
    let ?d2 = "?d1\<lparr>db_applications := db_applications ?d1 @ [(jobId, un)]\<rparr>"
    have "User_applyToJob un jobId d = (Inr (), ?d1)"
      using ex by (rule User_applyToJob_both_exist)
    moreover have "User_applyToJob un jobId ?d1 = (Inr (), ?d2)"
      using ex by (intro User_applyToJob_both_exist) simp_all
    moreover have "db_applications ?d2 = db_applications d @ [(jobId, un), (jobId, un)]"
      by simp
    ultimately show ?thesis by blast
  qed
  have "fst (User_applyToJob un jobId d) \<noteq> Inl (BadRequestError msg)"
    by (simp add: User_applyToJob_def split: list.splits)
  with twice show ?thesis by blast
qed

theorem User_applyToJob_repeated_witness:
  "1 \<in> set (map id' (db_jobs sample_db)) \<and>
   ''ann'' \<in> set (map username (db_users sample_db)) \<and>
   (\<exists>d1 d2. User_applyToJob ''ann'' 1 sample_db = (Inr (), d1) \<and>
            User_applyToJob ''ann'' 1 d1 = (Inr (), d2) \<and>
            db_applications d2 = [(1, ''ann''), (1, ''ann'')])"
proof -
  have ex: "1 \<in> set (map id' (db_jobs sample_db)) \<and>
            ''ann'' \<in> set (map username (db_users sample_db))"
    by (simp add: sample_db_def sample_job_def sample_user_def)
  have "db_applications sample_db = []" by (simp add: sample_db_def)
  with User_applyToJob_repeated [of 1 sample_db "''ann''", THEN conjunct1, THEN mp, OF ex] ex
  show ?thesis by simp
qed

lemma find_filter: "find P xs = (case filter P xs of [] \<Rightarrow> None | y # _ \<Rightarrow> Some y)"
  by (induction xs) simp_all

lemma User_authenticate_eq:
  "User_authenticate compare un pw d =
     (case find (\<lambda>u. username u = un) (db_users d) of
        Some u \<Rightarrow>
          if compare pw (password u) then (Inr (user_of_row u), d)
          else (Inl (UnauthorizedError ''Invalid username/password''), d)
      | None \<Rightarrow> (Inl (UnauthorizedError ''Invalid username/password''), d))"
  by (simp add: User_authenticate_def db_select_user_def find_filter split: list.splits)

lemma find_holds: "find P xs = Some x \<Longrightarrow> P x"
  by (induction xs) (auto split: if_splits)

text \<open>
  C6. \<^verbatim>\<open>User.authenticate\<close> returns a user exactly when a row with the username exists
  and the supplied password matches its stored hash, and then it returns the record of
  that row's username, first name, last name, email and admin flag, without the
  password; in every other case, unknown username or wrong password alike, it fails with
  the one error Unauthorized "Invalid username/password". The store is left as it was.
\<close>

theorem User_authenticate_outcomes:
  "(fst (User_authenticate compare un pw d) = Inr v \<longleftrightarrow>
      (\<exists>u. find (\<lambda>u. username u = un) (db_users d) = Some u \<and> compare pw (password u) \<and>
           v = \<lparr> username = un, firstName = firstName u, lastName = lastName u,
                 email = email u, isAdmin = isAdmin u \<rparr>)) \<and>
   (\<not> (\<exists>u. find (\<lambda>u. username u = un) (db_users d) = Some u \<and> compare pw (password u)) \<longrightarrow>
      fst (User_authenticate compare un pw d) =
        Inl (UnauthorizedError ''Invalid username/password'')) \<and>
   snd (User_authenticate compare un pw d) = d"
proof (cases "find (\<lambda>u. username u = un) (db_users d)")
  case None
  then show ?thesis by (simp add: User_authenticate_eq)
next
  case (Some u)
  from find_holds [OF Some] have key: "username u = un" .
  have row: "user_of_row u =
               \<lparr> username = un, firstName = firstName u, lastName = lastName u,
                 email = email u, isAdmin = isAdmin u \<rparr>"
    by (simp add: user_of_row_def key)
  show ?thesis
  proof (cases "compare pw (password u)")
    case True
    with Some show ?thesis by (auto simp: User_authenticate_eq row)
  next
    case False
    with Some show ?thesis by (simp add: User_authenticate_eq)
  qed
qed

theorem User_authenticate_outcomes_witness:
  "find (\<lambda>u. username u = ''ann'') (db_users sample_db) = Some sample_user \<and>
   fst (User_authenticate (\<lambda>p h. h = ''hash-of-'' @ p) ''ann'' ''secret'' sample_db) =
     Inr \<lparr> username = ''ann'', firstName = ''Ann'', lastName = ''Lee'',
           email = ''ann@acme.org'', isAdmin = False \<rparr> \<and>
   fst (User_authenticate (\<lambda>p h. h = ''hash-of-'' @ p) ''ann'' ''guess'' sample_db) =
     Inl (UnauthorizedError ''Invalid username/password'') \<and>
   find (\<lambda>u. username u = ''bob'') (db_users sample_db) = None \<and>
   fst (User_authenticate (\<lambda>p h. h = ''hash-of-'' @ p) ''bob'' ''secret'' sample_db) =
     Inl (UnauthorizedError ''Invalid username/password'')"
  using User_authenticate_outcomes
          [of "\<lambda>p h. h = ''hash-of-'' @ p" "''ann''" "''secret''" sample_db
              "\<lparr> username = ''ann'', firstName = ''Ann'', lastName = ''Lee'',
                 email = ''ann@acme.org'', isAdmin = False \<rparr>"]
    User_authenticate_outcomes
          [of "\<lambda>p h. h = ''hash-of-'' @ p" "''ann''" "''guess''" sample_db]
    User_authenticate_outcomes
          [of "\<lambda>p h. h = ''hash-of-'' @ p" "''bob''" "''secret''" sample_db]
  by (simp add: sample_db_def sample_user_def)

section \<open>Properties of the create operations\<close>








section \<open>Properties of the searches\<close>

lemma string_of_nat_small:
  "string_of_nat (Suc 0) = ''1''"
  "string_of_nat (Suc (Suc 0)) = ''2''"
  "string_of_nat (Suc (Suc (Suc 0))) = ''3''"
  by (simp_all add: string_of_nat.simps digit_char_def)











text \<open>The store reads each WHERE clause of the company search as the model wrote it.\<close>

lemma parse_company_where_raw:
  \<open>parse_where parse_company_filter (concatenatedFilters []) = Some []\<close>
  \<open>parse_where parse_company_filter (concatenatedFilters [''num_employees < $1'']) =
     Some [EmployeesLt 1]\<close>
  \<open>parse_where parse_company_filter (concatenatedFilters [''num_employees > $1'']) =
     Some [EmployeesGt 1]\<close>
  \<open>parse_where parse_company_filter
     (concatenatedFilters [''num_employees > $1'', ''num_employees < $2'']) =
     Some [EmployeesGt 1, EmployeesLt 2]\<close>
  \<open>parse_where parse_company_filter
     (concatenatedFilters [''name ILIKE '%' ||$1 || '%'' @ [CHR 0x27]]) =
     Some [NameILike 1]\<close>
  \<open>parse_where parse_company_filter
     (concatenatedFilters [''name ILIKE '%' ||$1 || '%'' @ [CHR 0x27], ''num_employees < $2'']) =
     Some [NameILike 1, EmployeesLt 2]\<close>
  \<open>parse_where parse_company_filter
     (concatenatedFilters [''name ILIKE '%' ||$1 || '%'' @ [CHR 0x27], ''num_employees > $2'']) =
     Some [NameILike 1, EmployeesGt 2]\<close>
  \<open>parse_where parse_company_filter
     (concatenatedFilters
        [''name ILIKE '%' ||$1 || '%'' @ [CHR 0x27], ''num_employees > $2'',
         ''num_employees < $3'']) =
     Some [NameILike 1, EmployeesGt 2, EmployeesLt 3]\<close>
  by code_simp+

lemmas parse_company_where = parse_company_where_raw [unfolded append.simps]

lemma Company_findAll_eq:
  "Company_findAll ilike name' minEmployees maxEmployees d =
     (Inr (sort_key name
             (filter (company_selected ilike name' minEmployees maxEmployees) (db_companies d))),
      d)"
proof -
  have "db_select_companies ilike
          (concatenatedFilters (snd (Company_findAll_filters name' minEmployees maxEmployees)))
          (fst (Company_findAll_filters name' minEmployees maxEmployees)) d =
        Inr (sort_key name
               (filter (company_selected ilike name' minEmployees maxEmployees) (db_companies d)))"
    by (cases name'; cases minEmployees; cases maxEmployees)
       (auto simp: Company_findAll_filters_def db_select_companies_def parse_company_where
          string_of_nat_small bind_param_def param_def company_selected_def
          intro!: arg_cong [where f = "sort_key name"] filter_cong
          split: option.splits)
  then show ?thesis
    by (cases "Company_findAll_filters name' minEmployees maxEmployees")
       (simp add: Company_findAll_def)
qed

text \<open>
  C2, as the claim states it, fails for a bound that is supplied as 0: the number 0 is
  falsy, no predicate is added for it, and companies with employees are returned.
\<close>

theorem Company_findAll_zero_counterexample:
  "fst (Company_findAll (\<lambda>p t. True) None None (Some 0) sample_db) = Inr [sample_company] \<and>
   numEmployees sample_company = Some 5 \<and> \<not> (5 :: int) \<le> 0"
  by (simp add: Company_findAll_eq company_selected_def sample_db_def sample_company_def)

text \<open>
  C2, amended. \<^verbatim>\<open>Company.findAll\<close> returns, in the order of their names, exactly the
  companies that satisfy every filter that applies, where a name applies unless it is
  missing or empty and a bound unless it is missing or 0. Hence, when a minimum other than
  0 is supplied every returned company has an employee count of at least (in fact more
  than) the minimum, when a maximum other than 0 is supplied every returned company has
  an employee count of at most (in fact less than) the maximum, and when no filter is
  supplied all companies are returned.
\<close>

theorem Company_findAll_filtered:
  "\<exists>rows.
     Company_findAll ilike name' minEmployees maxEmployees d = (Inr rows, d) \<and>
     rows = sort_key name
              (filter (company_selected ilike name' minEmployees maxEmployees) (db_companies d)) \<and>
     sorted (map name rows) \<and>
     (\<forall>m. minEmployees = Some m \<and> m \<noteq> 0 \<longrightarrow>
          (\<forall>c \<in> set rows. \<exists>e. numEmployees c = Some e \<and> m \<le> e)) \<and>
     (\<forall>m. maxEmployees = Some m \<and> m \<noteq> 0 \<longrightarrow>
          (\<forall>c \<in> set rows. \<exists>e. numEmployees c = Some e \<and> e \<le> m)) \<and>
     (name' = None \<and> minEmployees = None \<and> maxEmployees = None \<longrightarrow>
          rows = sort_key name (db_companies d))"
proof -
  let ?rows = "sort_key name
                 (filter (company_selected ilike name' minEmployees maxEmployees) (db_companies d))"
  have "sorted (map name ?rows)" by (rule sorted_sort_key)
  moreover have "\<forall>m. minEmployees = Some m \<and> m \<noteq> 0 \<longrightarrow>
          (\<forall>c \<in> set ?rows. \<exists>e. numEmployees c = Some e \<and> m \<le> e)"
    by (auto simp: company_selected_def split: option.splits)
  moreover have "\<forall>m. maxEmployees = Some m \<and> m \<noteq> 0 \<longrightarrow>
          (\<forall>c \<in> set ?rows. \<exists>e. numEmployees c = Some e \<and> e \<le> m)"
    by (auto simp: company_selected_def split: option.splits)
  moreover have "name' = None \<and> minEmployees = None \<and> maxEmployees = None \<longrightarrow>
          ?rows = sort_key name (db_companies d)"
    by (simp add: company_selected_def)
  ultimately show ?thesis
    using Company_findAll_eq [of ilike name' minEmployees maxEmployees d] by blast
qed

theorem Company_findAll_filtered_witness:
  "fst (Company_findAll (\<lambda>p t. True) (Some ''c'') (Some 3) (Some 10)
          (sample_db\<lparr>db_companies := [sample_company, new_company]\<rparr>)) =
     Inr [sample_company] \<and>
   numEmployees sample_company = Some 5 \<and> (3 :: int) \<le> 5 \<and> (5 :: int) \<le> 10 \<and>
   fst (Company_findAll (\<lambda>p t. True) None None None
          (sample_db\<lparr>db_companies := [new_company, sample_company]\<rparr>)) =
     Inr [sample_company, new_company]"
proof -
  let ?d = "sample_db\<lparr>db_companies := [sample_company, new_company]\<rparr>"
  let ?e = "sample_db\<lparr>db_companies := [new_company, sample_company]\<rparr>"
  from Company_findAll_filtered [of "\<lambda>p t. True" "Some ''c''" "Some 3" "Some 10" ?d]
  obtain rows where
    r: "Company_findAll (\<lambda>p t. True) (Some ''c'') (Some 3) (Some 10) ?d = (Inr rows, ?d)"
    and s: "rows = sort_key name
              (filter (company_selected (\<lambda>p t. True) (Some ''c'') (Some 3) (Some 10)) (db_companies ?d))"
    by blast
  from s have "rows = [sample_company]"
    by (simp add: company_selected_def sample_company_def new_company_def)
  with r have a: "fst (Company_findAll (\<lambda>p t. True) (Some ''c'') (Some 3) (Some 10) ?d) =
     Inr [sample_company]" by simp
  from Company_findAll_filtered [of "\<lambda>p t. True" None None None ?e]
  obtain rows' where
    r': "Company_findAll (\<lambda>p t. True) None None None ?e = (Inr rows', ?e)"
    and s': "rows' = sort_key name (db_companies ?e)"
    by blast
  from s' have "rows' = [sample_company, new_company]"
    by (simp add: sample_company_def new_company_def less_eq_char_def less_char_def)
  with r' have b: "fst (Company_findAll (\<lambda>p t. True) None None None ?e) =
     Inr [sample_company, new_company]" by simp
  from a b show ?thesis by (simp add: sample_company_def)
qed

section \<open>Operations on a key that does not exist\<close>

subsection \<open>The store reads back the placeholders and SET clauses that the models write\<close>









subsection \<open>An UPDATE statement whose key matches no row\<close>

lemma those_map_Some: "those (map Some xs) = Some xs"
  by (induction xs) simp_all















subsection \<open>Get, update and remove on a key that does not exist\<close>


























end
